theory Spec2Isabelle
  imports Main
begin

section \<open>Python values, exceptions and the library functions aspy.py calls\<close>

text \<open>
  The values that flow through \<^verbatim>\<open>aspy.py\<close>: what \<^verbatim>\<open>json.dumps\<close> accepts and what
  \<^verbatim>\<open>Response.json()\<close> yields. A dict keeps its insertion order, so it is an association
  list; its keys are strings, as in every dict of the module and in every parsed JSON
  object. Floating-point numbers are left out. A \<^typ>\<open>string\<close> stands for a Python
  \<^verbatim>\<open>str\<close> whose code points are below 256, one \<^typ>\<open>char\<close> each.
\<close>

datatype pyval =
    PNone
  | PBool bool
  | PInt int
  | PStr string
  | PList "pyval list"
  | PDict "(string \<times> pyval) list"

text \<open>
  The exceptions that can leave a method of the class. \<open>ConnectionError\<close> is the
  module's own class (line 7), which shadows the builtin of that name;
  \<open>RequestException\<close> stands for whatever else \<^verbatim>\<open>requests.post\<close> raises and the
  module does not catch.
\<close>

datatype error =
    ConnectionError
  | RequestException string
  | JSONDecodeError
  | TypeError
  | KeyError string
  | ValueError
  | AttributeError string

subsection \<open>string.Template.substitute\<close>

text \<open>
  \<^verbatim>\<open>Template(t).substitute(**kws)\<close> scans \<open>t\<close> for the delimiter \<^verbatim>\<open>$\<close>:
  \<^verbatim>\<open>$$\<close> is an escaped delimiter, \<^verbatim>\<open>$name\<close> and \<^verbatim>\<open>${name}\<close> are placeholders with
  \<open>name\<close> matching \<^verbatim>\<open>[_a-z][_a-z0-9]*\<close> (case-insensitive, longest match), anything
  else after the delimiter raises ValueError, a placeholder missing from the keywords
  raises KeyError. Substituted text is not scanned again.
\<close>

definition idstart :: "char \<Rightarrow> bool" where
  "idstart c \<longleftrightarrow>
     c \<in> set ''_abcdefghijklmnopqrstuvwxyzABCDEFGHIJKLMNOPQRSTUVWXYZ''"

definition idchar :: "char \<Rightarrow> bool" where
  "idchar c \<longleftrightarrow> idstart c \<or> c \<in> set ''0123456789''"

definition emit :: "string \<Rightarrow> error + string \<Rightarrow> error + string" where
  "emit s rest = (case rest of Inl e \<Rightarrow> Inl e | Inr t \<Rightarrow> Inr (s @ t))"

definition place ::
  "(string \<times> string) list \<Rightarrow> string \<Rightarrow> error + string \<Rightarrow> error + string" where
  "place kws name rest =
     (case map_of kws name of
        None \<Rightarrow> Inl (KeyError name)
      | Some v \<Rightarrow> emit v rest)"

fun scan :: "(string \<times> string) list \<Rightarrow> string \<Rightarrow> error + string"
  and after_delimiter :: "(string \<times> string) list \<Rightarrow> string \<Rightarrow> error + string"
  and in_named :: "(string \<times> string) list \<Rightarrow> string \<Rightarrow> string \<Rightarrow> error + string"
  and in_braced :: "(string \<times> string) list \<Rightarrow> string \<Rightarrow> string \<Rightarrow> error + string"
where
  "scan kws [] = Inr []"
| "scan kws (c # cs) =
     (if c = CHR ''$'' then after_delimiter kws cs else emit [c] (scan kws cs))"
| "after_delimiter kws [] = Inl ValueError"
| "after_delimiter kws (c # cs) =
     (if c = CHR ''$'' then emit ''$'' (scan kws cs)
      else if idstart c then in_named kws [c] cs
      else if c = CHR ''{'' then in_braced kws [] cs
      else Inl ValueError)"
| "in_named kws name [] = place kws name (Inr [])"
| "in_named kws name (c # cs) =
     (if idchar c then in_named kws (name @ [c]) cs
      else place kws name
             (if c = CHR ''$'' then after_delimiter kws cs else emit [c] (scan kws cs)))"
| "in_braced kws name [] = Inl ValueError"
| "in_braced kws name (c # cs) =
     (if c = CHR ''}'' then
        (if name = [] then Inl ValueError else place kws name (scan kws cs))
      else if (if name = [] then idstart c else idchar c) then in_braced kws (name @ [c]) cs
      else Inl ValueError)"

definition substitute :: "string \<Rightarrow> (string \<times> string) list \<Rightarrow> error + string" where
  "substitute template kws = scan kws template"

subsection \<open>str of an int, json.dumps\<close>

function digits :: "nat \<Rightarrow> string" where
  "digits n =
     (if n < 10 then [''0123456789'' ! n]
      else digits (n div 10) @ [''0123456789'' ! (n mod 10)])"
  by pat_completeness auto
termination
  by (relation "measure id") auto

declare digits.simps [simp del]

definition str_int :: "int \<Rightarrow> string" where
  "str_int i = (if i < 0 then ''-'' @ digits (nat (- i)) else digits (nat i))"

fun join :: "string \<Rightarrow> string list \<Rightarrow> string" where
  "join sep [] = []"
| "join sep [x] = x"
| "join sep (x # y # ys) = x @ sep @ join sep (y # ys)"

text \<open>
  \<^verbatim>\<open>json.dumps\<close> with its defaults (\<^verbatim>\<open>ensure_ascii=True\<close>, separators \<^verbatim>\<open>', '\<close> and
  \<^verbatim>\<open>': '\<close>, keys in insertion order). A string is quoted; the quote, the backslash and
  the control characters with a short form are escaped with a backslash, every other
  character outside \<^verbatim>\<open>' '..'~'\<close> becomes \<^verbatim>\<open>\uXXXX\<close> in lower-case hexadecimal.
\<close>

definition hex4 :: "nat \<Rightarrow> string" where
  "hex4 n = map (\<lambda>k. ''0123456789abcdef'' ! ((n div 16 ^ k) mod 16)) [3, 2, 1, 0]"

definition escape_char :: "char \<Rightarrow> string" where
  "escape_char c =
     (if c = CHR 0x22 then [CHR 0x5C, CHR 0x22]
      else if c = CHR 0x5C then [CHR 0x5C, CHR 0x5C]
      else if c = CHR 0x0A then [CHR 0x5C, CHR ''n'']
      else if c = CHR 0x0D then [CHR 0x5C, CHR ''r'']
      else if c = CHR 0x09 then [CHR 0x5C, CHR ''t'']
      else if c = CHR 0x08 then [CHR 0x5C, CHR ''b'']
      else if c = CHR 0x0C then [CHR 0x5C, CHR ''f'']
      else if 32 \<le> (of_char c :: nat) \<and> (of_char c :: nat) \<le> 126 then [c]
      else [CHR 0x5C, CHR ''u''] @ hex4 (of_char c))"

definition encode_basestring_ascii :: "string \<Rightarrow> string" where
  "encode_basestring_ascii s = [CHR 0x22] @ concat (map escape_char s) @ [CHR 0x22]"

fun dumps :: "pyval \<Rightarrow> string" where
  "dumps PNone = ''null''"
| "dumps (PBool b) = (if b then ''true'' else ''false'')"
| "dumps (PInt i) = str_int i"
| "dumps (PStr s) = encode_basestring_ascii s"
| "dumps (PList xs) = ''['' @ join '', '' (map dumps xs) @ '']''"
| "dumps (PDict kvs) =
     ''{'' @ join '', '' (map (\<lambda>(k, v). encode_basestring_ascii k @ '': '' @ dumps v) kvs)
       @ ''}''"

text \<open>
  \<^verbatim>\<open>obj[key]\<close> with a string key: a dict looks the key up and raises KeyError when it is
  missing; None, booleans, integers, strings and lists raise TypeError.
\<close>

fun getitem :: "pyval \<Rightarrow> string \<Rightarrow> error + pyval" where
  "getitem (PDict kvs) k =
     (case map_of kvs k of None \<Rightarrow> Inl (KeyError k) | Some v \<Rightarrow> Inr v)"
| "getitem _ k = Inl TypeError"

section \<open>The class aspaceRepo\<close>

text \<open>
  The five connection parameters are strings, as in the class's doctests. The attribute
  \<^verbatim>\<open>connection\<close> is not assigned by the constructor: \<open>None\<close> here means that the
  object has no such attribute, \<open>Some v\<close> that it has one with value \<open>v\<close>.
\<close>

record aspaceRepo =
  protocol :: string
  domain :: string
  port :: string
  username :: string
  password :: string
  sessionId :: pyval
  connection :: "pyval option"

definition init :: "string \<Rightarrow> string \<Rightarrow> string \<Rightarrow> string \<Rightarrow> string \<Rightarrow> aspaceRepo" where
  "init protocol' domain' port' username' password' =
     \<lparr>protocol = protocol', domain = domain', port = port', username = username',
      password = password', sessionId = PNone, connection = None\<rparr>"


definition getHost :: "aspaceRepo \<Rightarrow> error + string" where
  "getHost self =
     substitute ''$protocol://$domain:$port''
       [(''protocol'', protocol self), (''domain'', domain self), (''port'', port self)]"

subsection \<open>The transport and the log\<close>

text \<open>
  \<^verbatim>\<open>requests.post(url, data = ..., headers = ...)\<close> is the one call that leaves the
  process. A request is what the module hands over: the URL and the two keyword
  arguments, as Python values (\<open>req_headers\<close> is a dict or the empty string of line 43).
  Of a response the module reads \<^verbatim>\<open>status_code\<close>, \<^verbatim>\<open>text\<close> and \<^verbatim>\<open>json()\<close>; the last is
  \<open>None\<close> when the body is not JSON, and the call then raises.
\<close>

record request =
  req_url :: string
  req_data :: pyval
  req_headers :: pyval

record response =
  status_code :: int
  resp_text :: string
  resp_json :: "pyval option"

datatype outcome =
    Returns response
  | RaisesConnectionError
  | RaisesOther string

text \<open>
  The remote service and the network are a parameter: a function from the requests made
  so far and the current request to the outcome of \<^verbatim>\<open>requests.post\<close>.
\<close>

type_synonym remote = "request list \<Rightarrow> request \<Rightarrow> outcome"

text \<open>
  The state a method runs in: the object, the lines written by \<^verbatim>\<open>logging.error\<close> and
  the requests handed to \<^verbatim>\<open>requests.post\<close>, both oldest first. A method returns its
  result (\<open>Inl\<close> an exception that leaves it, \<open>Inr\<close> the value returned) and the state
  it leaves behind in either case.
\<close>

record state =
  client :: aspaceRepo
  error_log :: "string list"
  posted :: "request list"

definition logging_error :: "string \<Rightarrow> state \<Rightarrow> state" where
  "logging_error msg s = s\<lparr>error_log := error_log s @ [msg]\<rparr>"

definition requests_post :: "remote \<Rightarrow> request \<Rightarrow> state \<Rightarrow> outcome \<times> state" where
  "requests_post remote req s = (remote (posted s) req, s\<lparr>posted := posted s @ [req]\<rparr>)"

definition construct :: "string \<Rightarrow> string \<Rightarrow> string \<Rightarrow> string \<Rightarrow> string \<Rightarrow> state" where
  "construct protocol' domain' port' username' password' =
     \<lparr>client = init protocol' domain' port' username' password', error_log = [], posted = []\<rparr>"

subsection \<open>requestPost (lines 33-62)\<close>

definition session_header :: "aspaceRepo \<Rightarrow> pyval" where
  "session_header self =
     (if sessionId self \<noteq> PNone then PDict [(''X-ArchivesSpace-Session'', sessionId self)]
      else PStr [])"

definition request_data :: "aspaceRepo \<Rightarrow> pyval \<Rightarrow> pyval" where
  "request_data self payload =
     (if sessionId self \<noteq> PNone then PStr (dumps payload) else payload)"

definition classify :: "response \<Rightarrow> state \<Rightarrow> (error + pyval) \<times> state" where
  "classify r s =
     (if status_code r = 403 then
        (Inr PNone,
         logging_error (resp_text r) (logging_error ''Forbidden -- check your credentials.'' s))
      else if status_code r = 400 then
        (Inr PNone,
         logging_error (resp_text r) (logging_error ''Bad Request -- Your request sucks.'' s))
      else if status_code r = 200 then
        (case resp_json r of None \<Rightarrow> (Inl JSONDecodeError, s) | Some v \<Rightarrow> (Inr v, s))
      else
        (Inr PNone, logging_error (resp_text r) (logging_error (str_int (status_code r)) s)))"

text \<open>
  Lines 36-47: the arguments of \<^verbatim>\<open>requests.post\<close>. The session header and the
  serialisation are computed first, the URL when the call is made.
\<close>

definition post_arguments :: "aspaceRepo \<Rightarrow> string \<Rightarrow> pyval \<Rightarrow> error + request" where
  "post_arguments self path payload =
     (let sessionHeader = session_header self;
          payload' = request_data self payload
      in case getHost self of
           Inl e \<Rightarrow> Inl e
         | Inr host \<Rightarrow>
             Inr \<lparr>req_url = host @ path, req_data = payload', req_headers = sessionHeader\<rparr>)"

definition requestPost :: "remote \<Rightarrow> state \<Rightarrow> string \<Rightarrow> pyval \<Rightarrow> (error + pyval) \<times> state" where
  "requestPost remote s path payload =
     (case post_arguments (client s) path payload of
        Inl e \<Rightarrow> (Inl e, s)
      | Inr req \<Rightarrow>
          (case requests_post remote req s of
             (RaisesConnectionError, s') \<Rightarrow>
               (Inl ConnectionError,
                logging_error
                  ''Unable to connect to ArchivesSpace. Check the host information.'' s')
           | (RaisesOther e, s') \<Rightarrow> (Inl (RequestException e), s')
           | (Returns r, s') \<Rightarrow> classify r s'))"

subsection \<open>connect (lines 64-80)\<close>

definition connect :: "remote \<Rightarrow> state \<Rightarrow> (error + pyval) \<times> state" where
  "connect remote s =
     (case substitute ''/users/$username/login'' [(''username'', username (client s))] of
        Inl e \<Rightarrow> (Inl e, s)
      | Inr path \<Rightarrow>
          (case requestPost remote s path (PDict [(''password'', PStr (password (client s)))]) of
             (Inl ConnectionError, s') \<Rightarrow> (Inr PNone, logging_error ''Couldn't authenticate.'' s')
           | (Inl e, s') \<Rightarrow> (Inl e, s')
           | (Inr jsonResponse, s') \<Rightarrow>
               (let s'' = s'\<lparr>client := (client s')\<lparr>connection := Some jsonResponse\<rparr>\<rparr>
                in case getitem jsonResponse ''session'' of
                     Inl e \<Rightarrow> (Inl e, s'')
                   | Inr v \<Rightarrow> (Inr PNone, s''\<lparr>client := (client s'')\<lparr>sessionId := v\<rparr>\<rparr>))))"

subsection \<open>repositoriesPost (lines 82-92) and subjectsPost (lines 94-111)\<close>

definition repositoriesPost ::
  "remote \<Rightarrow> state \<Rightarrow> pyval \<Rightarrow> pyval \<Rightarrow> (error + pyval) \<times> state" where
  "repositoriesPost remote s repo_code name =
     requestPost remote s ''/repositories''
       (PDict [(''jsonmodel_type'', PStr ''repository''), (''repo_code'', repo_code),
               (''name'', name)])"

definition subject_data :: pyval where
  "subject_data =
     PDict [(''jsonmodel_type'', PStr ''subject''),
            (''external_ids'', PList []),
            (''publish'', PBool True),
            (''used_within_repositories'', PList []),
            (''used_within_published_repositories'', PList []),
            (''terms'', PList [PDict [(''jsonmodel_type'', PStr ''term''),
                                      (''term'', PStr ''Term 132''),
                                      (''term_type'', PStr ''geographic''),
                                      (''vocabulary'', PStr ''/vocabularies/156'')]]),
            (''external_documents'', PList []),
            (''vocabulary'', PStr ''/vocabularies/157''),
            (''authority_id'', PStr ''http://www.example-596.com''),
            (''scope_note'', PStr ''M911GA46''),
            (''source'', PStr ''gmgpc'')]"

definition subjectsPost :: "remote \<Rightarrow> state \<Rightarrow> (error + pyval) \<times> state" where
  "subjectsPost remote s = requestPost remote s ''/subjects'' (PStr (dumps subject_data))"

subsection \<open>Sequences of calls\<close>

text \<open>
  A caller may invoke the methods in any order, and may go on after one of them has
  raised: \<open>run\<close> keeps the state each call leaves behind and drops its result.
\<close>

datatype call =
    GetHost
  | RequestPost string pyval
  | Connect
  | RepositoriesPost pyval pyval
  | SubjectsPost

fun perform :: "remote \<Rightarrow> state \<Rightarrow> call \<Rightarrow> (error + pyval) \<times> state" where
  "perform remote s GetHost = (map_sum id PStr (getHost (client s)), s)"
| "perform remote s (RequestPost path payload) = requestPost remote s path payload"
| "perform remote s Connect = connect remote s"
| "perform remote s (RepositoriesPost repo_code name) = repositoriesPost remote s repo_code name"
| "perform remote s SubjectsPost = subjectsPost remote s"

fun run :: "remote \<Rightarrow> state \<Rightarrow> call list \<Rightarrow> state" where
  "run remote s [] = s"
| "run remote s (c # cs) = run remote (snd (perform remote s c)) cs"

section \<open>Properties\<close>

subsection \<open>What the two templates expand to\<close>

lemma getHost_value:
  "getHost self = Inr (protocol self @ ''://'' @ domain self @ '':'' @ port self)"
  by (simp add: getHost_def substitute_def idstart_def idchar_def place_def emit_def)

lemma login_path:
  "substitute ''/users/$username/login'' [(''username'', u)] = Inr (''/users/'' @ u @ ''/login'')"
  by (simp add: substitute_def idstart_def idchar_def place_def emit_def)

subsection \<open>requestPost, one outcome of the transport at a time\<close>

lemma post_arguments_value:
  "post_arguments self path payload =
     Inr \<lparr>req_url = protocol self @ ''://'' @ domain self @ '':'' @ port self @ path,
          req_data = request_data self payload,
          req_headers = session_header self\<rparr>"
  by (simp add: post_arguments_def getHost_value)

lemma requestPost_posted:
  "post_arguments (client s) path payload = Inr req \<Longrightarrow>
   posted (snd (requestPost remote s path payload)) = posted s @ [req]"
  by (simp add: requestPost_def requests_post_def classify_def logging_error_def
      split: outcome.splits option.splits)

lemma requestPost_client:
  "client (snd (requestPost remote s path payload)) = client s"
  by (simp add: requestPost_def post_arguments_value requests_post_def classify_def
      logging_error_def split: outcome.splits option.splits)

lemma requestPost_Returns:
  "post_arguments (client s) path payload = Inr req \<Longrightarrow> remote (posted s) req = Returns r \<Longrightarrow>
   requestPost remote s path payload = classify r (s\<lparr>posted := posted s @ [req]\<rparr>)"
  by (simp add: requestPost_def requests_post_def)

lemma requestPost_unreachable:
  "post_arguments (client s) path payload = Inr req \<Longrightarrow>
   remote (posted s) req = RaisesConnectionError \<Longrightarrow>
   requestPost remote s path payload =
     (Inl ConnectionError,
      logging_error ''Unable to connect to ArchivesSpace. Check the host information.''
        (s\<lparr>posted := posted s @ [req]\<rparr>))"
  by (simp add: requestPost_def requests_post_def)

subsection \<open>getHost\<close>

text \<open>
  C8. getHost returns exactly protocol, \<^verbatim>\<open>://\<close>, domain, \<^verbatim>\<open>:\<close>, port, whatever the three
  strings are (they are copied, not rescanned or normalised); it always returns (the
  result is never an exception); and as a call it leaves the whole state as it was:
  nothing is logged, nothing is sent, the object is unchanged.
\<close>

theorem getHost_format:
  "getHost (self\<lparr>protocol := p, domain := d, port := n\<rparr>) = Inr (p @ ''://'' @ d @ '':'' @ n)
   \<and> perform remote s GetHost =
       (Inr (PStr (protocol (client s) @ ''://'' @ domain (client s) @ '':'' @ port (client s))), s)"
  by (simp add: getHost_value)

subsection \<open>The outgoing request\<close>

text \<open>
  C5. What requestPost hands to \<^verbatim>\<open>requests.post\<close>, whatever the transport then does:
  with a session token set, the header dict carrying the token under
  \<^verbatim>\<open>X-ArchivesSpace-Session\<close> and the payload serialised by \<^verbatim>\<open>json.dumps\<close>; with
  no token, the payload itself, unserialised, and the empty string in place of headers.
  In both cases the URL is the host string followed by the path, and this request is the
  only one added to those made.
\<close>

theorem requestPost_outgoing_request:
  "(sessionId (client s) \<noteq> PNone \<longrightarrow>
      posted (snd (requestPost remote s path payload)) =
        posted s @
          [\<lparr>req_url = protocol (client s) @ ''://'' @ domain (client s) @ '':'' @ port (client s) @ path,
            req_data = PStr (dumps payload),
            req_headers = PDict [(''X-ArchivesSpace-Session'', sessionId (client s))]\<rparr>])
   \<and> (sessionId (client s) = PNone \<longrightarrow>
      posted (snd (requestPost remote s path payload)) =
        posted s @
          [\<lparr>req_url = protocol (client s) @ ''://'' @ domain (client s) @ '':'' @ port (client s) @ path,
            req_data = payload,
            req_headers = PStr []\<rparr>])"
  by (simp add: requestPost_posted [OF post_arguments_value] request_data_def session_header_def)

theorem requestPost_outgoing_request_witness:
  \<open>sessionId (client \<lparr>client = \<lparr>protocol = ''http'', domain = ''localhost'', port = ''8089'',
        username = ''admin'', password = ''admin'', sessionId = PStr ''abc123'',
        connection = None\<rparr>, error_log = [], posted = []\<rparr>) \<noteq> PNone
   \<and> posted (snd (requestPost (\<lambda>h q. RaisesConnectionError)
        \<lparr>client = \<lparr>protocol = ''http'', domain = ''localhost'', port = ''8089'',
          username = ''admin'', password = ''admin'', sessionId = PStr ''abc123'',
          connection = None\<rparr>, error_log = [], posted = []\<rparr>
        ''/repositories'' (PDict [(''name'', PStr ''a"b''), (''n'', PInt 12)]))) =
      [\<lparr>req_url = ''http://localhost:8089/repositories'',
        req_data = PStr (''{"name": "a'' @ [CHR 0x5C] @ ''"b", "n": 12}''),
        req_headers = PDict [(''X-ArchivesSpace-Session'', PStr ''abc123'')]\<rparr>]
   \<and> sessionId (client (construct ''http'' ''localhost'' ''8089'' ''admin'' ''admin'')) = PNone
   \<and> posted (snd (requestPost (\<lambda>h q. RaisesConnectionError)
        (construct ''http'' ''localhost'' ''8089'' ''admin'' ''admin'')
        ''/users/admin/login'' (PDict [(''password'', PStr ''admin'')]))) =
      [\<lparr>req_url = ''http://localhost:8089/users/admin/login'',
        req_data = PDict [(''password'', PStr ''admin'')],
        req_headers = PStr []\<rparr>]\<close>
  using requestPost_outgoing_request [of "\<lparr>client = \<lparr>protocol = ''http'', domain = ''localhost'', port = ''8089'',
        username = ''admin'', password = ''admin'', sessionId = PStr ''abc123'',
        connection = None\<rparr>, error_log = [], posted = []\<rparr>" "\<lambda>h q. RaisesConnectionError"
        "''/repositories''" "PDict [(''name'', PStr [CHR ''a'', CHR 0x22, CHR ''b'']), (''n'', PInt 12)]"]
    requestPost_outgoing_request [of "construct ''http'' ''localhost'' ''8089'' ''admin'' ''admin''"
        "\<lambda>h q. RaisesConnectionError" "''/users/admin/login''" "PDict [(''password'', PStr ''admin'')]"]
  by (simp add: construct_def init_def encode_basestring_ascii_def escape_char_def str_int_def
      digits.simps)

subsection \<open>Responses by status code\<close>

text \<open>
  C3. When the remote service answers the request: on status 200 requestPost returns
  the parsed JSON body (and logs nothing); on every other status it returns None,
  whatever the status, after logging two lines, a diagnostic chosen by the status
  (403, 400, or the status code itself) and the text of the response body.
\<close>

theorem requestPost_status_contract:
  assumes "post_arguments (client s) path payload = Inr req"
    and "remote (posted s) req = Returns r"
  shows "(status_code r = 200 \<and> resp_json r = Some j \<longrightarrow>
            requestPost remote s path payload = (Inr j, s\<lparr>posted := posted s @ [req]\<rparr>))
       \<and> (status_code r \<noteq> 200 \<longrightarrow>
            fst (requestPost remote s path payload) = Inr PNone
          \<and> error_log (snd (requestPost remote s path payload)) =
              error_log s @
                [if status_code r = 403 then ''Forbidden -- check your credentials.''
                 else if status_code r = 400 then ''Bad Request -- Your request sucks.''
                 else str_int (status_code r),
                 resp_text r])"
proof -
  have "requestPost remote s path payload = classify r (s\<lparr>posted := posted s @ [req]\<rparr>)"
    using assms by (rule requestPost_Returns)
  then show ?thesis
    by (simp add: classify_def logging_error_def)
qed

theorem requestPost_status_contract_witness:
  "post_arguments (client (construct ''http'' ''localhost'' ''8089'' ''admin'' ''admin''))
       ''/repositories'' (PDict [(''name'', PStr ''x'')]) =
     Inr \<lparr>req_url = ''http://localhost:8089/repositories'',
          req_data = PDict [(''name'', PStr ''x'')], req_headers = PStr []\<rparr>
   \<and> requestPost
        (\<lambda>h q. Returns \<lparr>status_code = 200, resp_text = ''{}'', resp_json = Some (PDict [])\<rparr>)
        (construct ''http'' ''localhost'' ''8089'' ''admin'' ''admin'')
        ''/repositories'' (PDict [(''name'', PStr ''x'')]) =
       (Inr (PDict []),
        (construct ''http'' ''localhost'' ''8089'' ''admin'' ''admin'')
          \<lparr>posted := [\<lparr>req_url = ''http://localhost:8089/repositories'',
                       req_data = PDict [(''name'', PStr ''x'')], req_headers = PStr []\<rparr>]\<rparr>)
   \<and> fst (requestPost
        (\<lambda>h q. Returns \<lparr>status_code = 404, resp_text = ''Not Found'', resp_json = None\<rparr>)
        (construct ''http'' ''localhost'' ''8089'' ''admin'' ''admin'')
        ''/repositories'' (PDict [(''name'', PStr ''x'')])) = Inr PNone
   \<and> error_log (snd (requestPost
        (\<lambda>h q. Returns \<lparr>status_code = 404, resp_text = ''Not Found'', resp_json = None\<rparr>)
        (construct ''http'' ''localhost'' ''8089'' ''admin'' ''admin'')
        ''/repositories'' (PDict [(''name'', PStr ''x'')]))) = [''404'', ''Not Found'']"
proof -
  let ?s = "construct ''http'' ''localhost'' ''8089'' ''admin'' ''admin''"
  let ?req = "\<lparr>req_url = ''http://localhost:8089/repositories'',
          req_data = PDict [(''name'', PStr ''x'')], req_headers = PStr []\<rparr>"
  have args: "post_arguments (client ?s) ''/repositories'' (PDict [(''name'', PStr ''x'')]) = Inr ?req"
    by (simp add: post_arguments_value construct_def init_def request_data_def session_header_def)
  have ok: "(\<lambda>h q. Returns \<lparr>status_code = 200, resp_text = ''{}'', resp_json = Some (PDict [])\<rparr>)
      (posted ?s) ?req = Returns \<lparr>status_code = 200, resp_text = ''{}'', resp_json = Some (PDict [])\<rparr>"
    by simp
  have nf: "(\<lambda>h q. Returns \<lparr>status_code = 404, resp_text = ''Not Found'', resp_json = None\<rparr>)
      (posted ?s) ?req = Returns \<lparr>status_code = 404, resp_text = ''Not Found'', resp_json = None\<rparr>"
    by simp
  have digits: "str_int 404 = ''404''"
    by (simp add: str_int_def digits.simps)
  show ?thesis
    using args requestPost_status_contract [OF args ok, of "PDict []"]
      requestPost_status_contract [OF args nf, of PNone] digits
    by (simp add: construct_def)
qed

subsection \<open>Transport failure\<close>

text \<open>
  C4. When the host cannot be reached, requestPost raises the module's ConnectionError,
  an exception and not a value; repositoriesPost and subjectsPost let it through to their
  caller; connect catches it, logs a second line after the one requestPost logged, returns
  None and leaves the object as it was.
\<close>

theorem connection_failure_signal:
  assumes "\<And>req. remote (posted s) req = RaisesConnectionError"
  shows "fst (requestPost remote s path payload) = Inl ConnectionError
       \<and> fst (repositoriesPost remote s repo_code name) = Inl ConnectionError
       \<and> fst (subjectsPost remote s) = Inl ConnectionError
       \<and> fst (connect remote s) = Inr PNone
       \<and> client (snd (connect remote s)) = client s
       \<and> error_log (snd (connect remote s)) =
           error_log s @ [''Unable to connect to ArchivesSpace. Check the host information.'',
                          ''Couldn't authenticate.'']"
proof -
  have raised: "requestPost remote s p d =
      (Inl ConnectionError,
       logging_error ''Unable to connect to ArchivesSpace. Check the host information.''
         (s\<lparr>posted := posted s @
            [\<lparr>req_url = protocol (client s) @ ''://'' @ domain (client s) @ '':'' @
                         port (client s) @ p,
              req_data = request_data (client s) d,
              req_headers = session_header (client s)\<rparr>]\<rparr>))"
    for p d
    using post_arguments_value assms by (rule requestPost_unreachable)
  show ?thesis
    by (simp add: repositoriesPost_def subjectsPost_def connect_def login_path raised
        logging_error_def)
qed

theorem connection_failure_signal_witness:
  "(\<forall>req. (\<lambda>h q. RaisesConnectionError) (posted (construct ''http'' ''nowhere'' ''8089'' ''admin'' ''admin'')) req
       = RaisesConnectionError)
   \<and> fst (requestPost (\<lambda>h q. RaisesConnectionError)
        (construct ''http'' ''nowhere'' ''8089'' ''admin'' ''admin'') ''/x'' PNone) = Inl ConnectionError
   \<and> fst (repositoriesPost (\<lambda>h q. RaisesConnectionError)
        (construct ''http'' ''nowhere'' ''8089'' ''admin'' ''admin'') (PStr ''FOO1'') (PStr ''Test Repo''))
       = Inl ConnectionError
   \<and> fst (subjectsPost (\<lambda>h q. RaisesConnectionError)
        (construct ''http'' ''nowhere'' ''8089'' ''admin'' ''admin'')) = Inl ConnectionError
   \<and> fst (connect (\<lambda>h q. RaisesConnectionError)
        (construct ''http'' ''nowhere'' ''8089'' ''admin'' ''admin'')) = Inr PNone
   \<and> sessionId (client (snd (connect (\<lambda>h q. RaisesConnectionError)
        (construct ''http'' ''nowhere'' ''8089'' ''admin'' ''admin'')))) = PNone
   \<and> error_log (snd (connect (\<lambda>h q. RaisesConnectionError)
        (construct ''http'' ''nowhere'' ''8089'' ''admin'' ''admin''))) =
       [''Unable to connect to ArchivesSpace. Check the host information.'',
        ''Couldn't authenticate.'']"
  using connection_failure_signal [of "\<lambda>h q. RaisesConnectionError"
      "construct ''http'' ''nowhere'' ''8089'' ''admin'' ''admin''" "''/x''" PNone
      "PStr ''FOO1''" "PStr ''Test Repo''"]
  by (simp add: construct_def init_def)

subsection \<open>connect\<close>

lemma connect_requestPost:
  "connect remote s =
     (case requestPost remote s (''/users/'' @ username (client s) @ ''/login'')
             (PDict [(''password'', PStr (password (client s)))]) of
        (Inl ConnectionError, s') \<Rightarrow> (Inr PNone, logging_error ''Couldn't authenticate.'' s')
      | (Inl e, s') \<Rightarrow> (Inl e, s')
      | (Inr jsonResponse, s') \<Rightarrow>
          (let s'' = s'\<lparr>client := (client s')\<lparr>connection := Some jsonResponse\<rparr>\<rparr>
           in case getitem jsonResponse ''session'' of
                Inl e \<Rightarrow> (Inl e, s'')
              | Inr v \<Rightarrow> (Inr PNone, s''\<lparr>client := (client s'')\<lparr>sessionId := v\<rparr>\<rparr>)))"
  by (simp add: connect_def login_path)

lemma connect_posted:
  "posted (snd (connect remote s)) =
     posted (snd (requestPost remote s (''/users/'' @ username (client s) @ ''/login'')
        (PDict [(''password'', PStr (password (client s)))])))"
  by (simp add: connect_requestPost logging_error_def Let_def
      split: prod.splits sum.splits error.splits)

text \<open>
  C2. connect hands exactly one request to \<^verbatim>\<open>requests.post\<close>: the URL is the host
  string followed by \<^verbatim>\<open>/users/\<close>, the username and \<^verbatim>\<open>/login\<close>, the payload is the
  dict holding the password (sent as it is, with no session header, when the client has
  no token yet). When the answer has status 200, its body parses to \<open>j\<close> and \<open>j\<close> is an
  object with a \<^verbatim>\<open>session\<close> field, connect returns None, \<open>j\<close> is the connection record
  and the field's value is the session token; nothing else changes.
\<close>

theorem connect_login:
  assumes "req =
     \<lparr>req_url = protocol (client s) @ ''://'' @ domain (client s) @ '':'' @ port (client s) @
                  ''/users/'' @ username (client s) @ ''/login'',
      req_data = request_data (client s) (PDict [(''password'', PStr (password (client s)))]),
      req_headers = session_header (client s)\<rparr>"
  shows "posted (snd (connect remote s)) = posted s @ [req]
       \<and> (sessionId (client s) = PNone \<longrightarrow>
            req_data req = PDict [(''password'', PStr (password (client s)))]
          \<and> req_headers req = PStr [])
       \<and> (remote (posted s) req = Returns r \<and> status_code r = 200 \<and> resp_json r = Some j
            \<and> getitem j ''session'' = Inr tok \<longrightarrow>
            connect remote s =
              (Inr PNone,
               s\<lparr>client := (client s)\<lparr>sessionId := tok, connection := Some j\<rparr>,
                 posted := posted s @ [req]\<rparr>))"
proof -
  let ?path = "''/users/'' @ username (client s) @ ''/login''"
  let ?payload = "PDict [(''password'', PStr (password (client s)))]"
  have args: "post_arguments (client s) ?path ?payload = Inr req"
    by (simp add: post_arguments_value assms)
  have sent: "posted (snd (connect remote s)) = posted s @ [req]"
    using requestPost_posted [OF args, of remote] by (simp add: connect_posted)
  have fresh: "sessionId (client s) = PNone \<longrightarrow>
      req_data req = ?payload \<and> req_headers req = PStr []"
    by (simp add: assms request_data_def session_header_def)
  have ok: "connect remote s =
       (Inr PNone,
        s\<lparr>client := (client s)\<lparr>sessionId := tok, connection := Some j\<rparr>,
          posted := posted s @ [req]\<rparr>)"
    if "remote (posted s) req = Returns r" "status_code r = 200" "resp_json r = Some j"
      "getitem j ''session'' = Inr tok"
  proof -
    have "requestPost remote s ?path ?payload = classify r (s\<lparr>posted := posted s @ [req]\<rparr>)"
      using args that(1) by (rule requestPost_Returns)
    then show ?thesis
      using that by (simp add: connect_requestPost classify_def)
  qed
  from sent fresh ok show ?thesis by blast
qed

theorem connect_login_witness:
  "connect
     (\<lambda>h q. Returns \<lparr>status_code = 200,
        resp_text = [CHR ''{'', CHR 0x22] @ ''session'' @ [CHR 0x22, CHR '':'', CHR 0x22] @ ''abc123'' @
          [CHR 0x22, CHR '','', CHR 0x22] @ ''user'' @ [CHR 0x22, CHR '':'', CHR ''{'', CHR 0x22] @
          ''username'' @ [CHR 0x22, CHR '':'', CHR 0x22] @ ''admin'' @ [CHR 0x22, CHR ''}'', CHR ''}''],
        resp_json = Some (PDict [(''session'', PStr ''abc123''),
                                 (''user'', PDict [(''username'', PStr ''admin'')])])\<rparr>)
     (construct ''http'' ''localhost'' ''8089'' ''admin'' ''admin'') =
   (Inr PNone,
    \<lparr>client = \<lparr>protocol = ''http'', domain = ''localhost'', port = ''8089'',
        username = ''admin'', password = ''admin'', sessionId = PStr ''abc123'',
        connection = Some (PDict [(''session'', PStr ''abc123''),
                                  (''user'', PDict [(''username'', PStr ''admin'')])])\<rparr>,
     error_log = [],
     posted = [\<lparr>req_url = ''http://localhost:8089/users/admin/login'',
                req_data = PDict [(''password'', PStr ''admin'')],
                req_headers = PStr []\<rparr>]\<rparr>)
   \<and> getitem (PDict [(''user'', PDict [(''username'', PStr ''admin'')])]) ''user'' =
       Inr (PDict [(''username'', PStr ''admin'')])
   \<and> getitem (PDict [(''username'', PStr ''admin'')]) ''username'' = Inr (PStr ''admin'')"
  using connect_login [of
      "\<lparr>req_url = ''http://localhost:8089/users/admin/login'',
        req_data = PDict [(''password'', PStr ''admin'')], req_headers = PStr []\<rparr>"
      "construct ''http'' ''localhost'' ''8089'' ''admin'' ''admin''"
      "\<lambda>h q. Returns \<lparr>status_code = 200,
        resp_text = [CHR ''{'', CHR 0x22] @ ''session'' @ [CHR 0x22, CHR '':'', CHR 0x22] @ ''abc123'' @
          [CHR 0x22, CHR '','', CHR 0x22] @ ''user'' @ [CHR 0x22, CHR '':'', CHR ''{'', CHR 0x22] @
          ''username'' @ [CHR 0x22, CHR '':'', CHR 0x22] @ ''admin'' @ [CHR 0x22, CHR ''}'', CHR ''}''],
        resp_json = Some (PDict [(''session'', PStr ''abc123''),
                                 (''user'', PDict [(''username'', PStr ''admin'')])])\<rparr>"
      "\<lparr>status_code = 200,
        resp_text = [CHR ''{'', CHR 0x22] @ ''session'' @ [CHR 0x22, CHR '':'', CHR 0x22] @ ''abc123'' @
          [CHR 0x22, CHR '','', CHR 0x22] @ ''user'' @ [CHR 0x22, CHR '':'', CHR ''{'', CHR 0x22] @
          ''username'' @ [CHR 0x22, CHR '':'', CHR 0x22] @ ''admin'' @ [CHR 0x22, CHR ''}'', CHR ''}''],
        resp_json = Some (PDict [(''session'', PStr ''abc123''),
                                 (''user'', PDict [(''username'', PStr ''admin'')])])\<rparr>"
      "PDict [(''session'', PStr ''abc123''), (''user'', PDict [(''username'', PStr ''admin'')])]"
      "PStr ''abc123''"]
  by (simp add: construct_def init_def request_data_def session_header_def)

text \<open>
  C1. A login that the service refuses with status 403: requestPost logs and returns
  None, connect stores that None as the connection record and then subscripts it, so a
  TypeError leaves connect. The session token stays None.
\<close>

theorem connect_forbidden_raises:
  "connect
     (\<lambda>h q. Returns \<lparr>status_code = 403, resp_text = ''Login failed'', resp_json = None\<rparr>)
     (construct ''http'' ''localhost'' ''8089'' ''admin'' ''wrong'') =
   (Inl TypeError,
    \<lparr>client = \<lparr>protocol = ''http'', domain = ''localhost'', port = ''8089'',
        username = ''admin'', password = ''wrong'', sessionId = PNone,
        connection = Some PNone\<rparr>,
     error_log = [''Forbidden -- check your credentials.'', ''Login failed''],
     posted = [\<lparr>req_url = ''http://localhost:8089/users/admin/login'',
                req_data = PDict [(''password'', PStr ''wrong'')],
                req_headers = PStr []\<rparr>]\<rparr>)"
  by (simp add: connect_requestPost requestPost_def post_arguments_value requests_post_def
      classify_def logging_error_def construct_def init_def request_data_def session_header_def)

subsection \<open>subjectsPost\<close>

lemma dumps_subject_data:
  \<open>dumps subject_data =
    ''{"jsonmodel_type": "subject", "external_ids": [], "publish": true, "used_within_repositories": [], "used_within_published_repositories": [], "terms": [{"jsonmodel_type": "term", "term": "Term 132", "term_type": "geographic", "vocabulary": "/vocabularies/156"}], "external_documents": [], "vocabulary": "/vocabularies/157", "authority_id": "http://www.example-596.com", "scope_note": "M911GA46", "source": "gmgpc"}''\<close>
  by code_simp

lemma hd_dumps_PStr: "hd (dumps (PStr x)) = CHR 0x22"
  by (simp add: encode_basestring_ascii_def)

lemma hd_dumps_PDict: "hd (dumps (PDict kvs)) = CHR ''{''"
  by simp

text \<open>
  C7. subjectsPost has no parameter besides the object. It serialises its fixed payload
  itself and passes the resulting text to requestPost, which, when a session token is
  set, serialises that text once more: the body sent is the JSON encoding of a string (it
  starts with a quote), not the JSON encoding of the subject object (which starts with a
  brace), and the two differ.
\<close>

theorem subjectsPost_double_serialization:
  assumes "sessionId (client s) \<noteq> PNone"
  shows "posted (snd (subjectsPost remote s)) =
           posted s @
             [\<lparr>req_url = protocol (client s) @ ''://'' @ domain (client s) @ '':'' @
                          port (client s) @ ''/subjects'',
               req_data = PStr (dumps (PStr (dumps subject_data))),
               req_headers = PDict [(''X-ArchivesSpace-Session'', sessionId (client s))]\<rparr>]
       \<and> hd (dumps (PStr (dumps subject_data))) = CHR 0x22
       \<and> hd (dumps subject_data) = CHR ''{''
       \<and> dumps (PStr (dumps subject_data)) \<noteq> dumps subject_data"
proof -
  have args: "post_arguments (client s) ''/subjects'' (PStr (dumps subject_data)) =
      Inr \<lparr>req_url = protocol (client s) @ ''://'' @ domain (client s) @ '':'' @
                          port (client s) @ ''/subjects'',
           req_data = PStr (dumps (PStr (dumps subject_data))),
           req_headers = PDict [(''X-ArchivesSpace-Session'', sessionId (client s))]\<rparr>"
    using assms by (simp add: post_arguments_value request_data_def session_header_def)
  have sent: "posted (snd (subjectsPost remote s)) =
           posted s @
             [\<lparr>req_url = protocol (client s) @ ''://'' @ domain (client s) @ '':'' @
                          port (client s) @ ''/subjects'',
               req_data = PStr (dumps (PStr (dumps subject_data))),
               req_headers = PDict [(''X-ArchivesSpace-Session'', sessionId (client s))]\<rparr>]"
    unfolding subjectsPost_def using args by (rule requestPost_posted)
  have quoted: "hd (dumps (PStr (dumps subject_data))) = CHR 0x22"
    by (rule hd_dumps_PStr)
  have brace: "hd (dumps subject_data) = CHR ''{''"
    unfolding subject_data_def by (rule hd_dumps_PDict)
  have "dumps (PStr (dumps subject_data)) \<noteq> dumps subject_data"
  proof
    assume "dumps (PStr (dumps subject_data)) = dumps subject_data"
    then have "hd (dumps (PStr (dumps subject_data))) = hd (dumps subject_data)"
      by (rule arg_cong)
    with quoted brace show False by simp
  qed
  with sent quoted brace show ?thesis by blast
qed


theorem subjectsPost_double_serialization_witness:
  \<open>sessionId (client \<lparr>client = \<lparr>protocol = ''http'', domain = ''localhost'', port = ''8089'',
        username = ''admin'', password = ''admin'', sessionId = PStr ''abc123'',
        connection = None\<rparr>, error_log = [], posted = []\<rparr>) \<noteq> PNone
   \<and> posted (snd (subjectsPost (\<lambda>h q. RaisesConnectionError)
        \<lparr>client = \<lparr>protocol = ''http'', domain = ''localhost'', port = ''8089'',
          username = ''admin'', password = ''admin'', sessionId = PStr ''abc123'',
          connection = None\<rparr>, error_log = [], posted = []\<rparr>)) =
       [\<lparr>req_url = ''http://localhost:8089/subjects'',
         req_data = PStr (dumps (PStr (dumps subject_data))),
         req_headers = PDict [(''X-ArchivesSpace-Session'', PStr ''abc123'')]\<rparr>]
   \<and> take 4 (dumps (PStr (dumps subject_data))) = [CHR 0x22, CHR ''{'', CHR 0x5C, CHR 0x22]
   \<and> take 4 (dumps subject_data) = ''{"js''\<close>
proof -
  let ?s = "\<lparr>client = \<lparr>protocol = ''http'', domain = ''localhost'', port = ''8089'',
        username = ''admin'', password = ''admin'', sessionId = PStr ''abc123'',
        connection = None\<rparr>, error_log = [], posted = []\<rparr>"
  have token: "sessionId (client ?s) \<noteq> PNone"
    by simp
  have double: "take 4 (dumps (PStr (dumps subject_data))) = [CHR 0x22, CHR ''{'', CHR 0x5C, CHR 0x22]"
    by (simp add: encode_basestring_ascii_def subject_data_def escape_char_def)
  have single: \<open>take 4 (dumps subject_data) = ''{"js''\<close>
    by (simp add: encode_basestring_ascii_def subject_data_def escape_char_def)
  from subjectsPost_double_serialization [OF token, of "\<lambda>h q. RaisesConnectionError"]
  have "posted (snd (subjectsPost (\<lambda>h q. RaisesConnectionError) ?s)) =
       [\<lparr>req_url = ''http://localhost:8089/subjects'',
         req_data = PStr (dumps (PStr (dumps subject_data))),
         req_headers = PDict [(''X-ArchivesSpace-Session'', PStr ''abc123'')]\<rparr>]"
    by simp
  with token double single show ?thesis
    by blast
qed

subsection \<open>repositoriesPost\<close>

text \<open>
  C6. repositoriesPost hands exactly one request to \<^verbatim>\<open>requests.post\<close>, for the host
  string followed by \<^verbatim>\<open>/repositories\<close>, built by requestPost from the payload with the
  three keys \<^verbatim>\<open>jsonmodel_type\<close> (the string \<^verbatim>\<open>repository\<close>), \<^verbatim>\<open>repo_code\<close> and
  \<^verbatim>\<open>name\<close>; its result and final state are those of requestPost on that path and
  payload: the parsed JSON on a 200 response, None on a 400 or a 403.
\<close>

theorem repositoriesPost_contract:
  assumes "req =
     \<lparr>req_url = protocol (client s) @ ''://'' @ domain (client s) @ '':'' @ port (client s) @
                  ''/repositories'',
      req_data = request_data (client s)
                   (PDict [(''jsonmodel_type'', PStr ''repository''), (''repo_code'', repo_code),
                           (''name'', name)]),
      req_headers = session_header (client s)\<rparr>"
  shows "posted (snd (repositoriesPost remote s repo_code name)) = posted s @ [req]
       \<and> repositoriesPost remote s repo_code name =
           requestPost remote s ''/repositories''
             (PDict [(''jsonmodel_type'', PStr ''repository''), (''repo_code'', repo_code),
                     (''name'', name)])
       \<and> (remote (posted s) req = Returns r \<and> status_code r = 200 \<and> resp_json r = Some j \<longrightarrow>
            fst (repositoriesPost remote s repo_code name) = Inr j)
       \<and> (remote (posted s) req = Returns r \<and> (status_code r = 400 \<or> status_code r = 403) \<longrightarrow>
            fst (repositoriesPost remote s repo_code name) = Inr PNone)"
proof -
  let ?payload = "PDict [(''jsonmodel_type'', PStr ''repository''), (''repo_code'', repo_code),
                         (''name'', name)]"
  have args: "post_arguments (client s) ''/repositories'' ?payload = Inr req"
    by (simp add: post_arguments_value assms)
  have sent: "posted (snd (repositoriesPost remote s repo_code name)) = posted s @ [req]"
    unfolding repositoriesPost_def using args by (rule requestPost_posted)
  have answered: "repositoriesPost remote s repo_code name =
      classify r (s\<lparr>posted := posted s @ [req]\<rparr>)" if "remote (posted s) req = Returns r"
    unfolding repositoriesPost_def using args that by (rule requestPost_Returns)
  have ok: "remote (posted s) req = Returns r \<and> status_code r = 200 \<and> resp_json r = Some j \<longrightarrow>
      fst (repositoriesPost remote s repo_code name) = Inr j"
    by (simp add: answered classify_def)
  have refused: "remote (posted s) req = Returns r \<and> (status_code r = 400 \<or> status_code r = 403) \<longrightarrow>
      fst (repositoriesPost remote s repo_code name) = Inr PNone"
    by (auto simp add: answered classify_def)
  from sent ok refused show ?thesis
    by (simp add: repositoriesPost_def)
qed

theorem repositoriesPost_contract_witness:
  \<open>posted (snd (repositoriesPost
       (\<lambda>h q. Returns \<lparr>status_code = 200, resp_text = ''{"uri":"/repositories/2"}'',
                        resp_json = Some (PDict [(''uri'', PStr ''/repositories/2'')])\<rparr>)
       \<lparr>client = \<lparr>protocol = ''http'', domain = ''localhost'', port = ''8089'',
          username = ''admin'', password = ''admin'', sessionId = PStr ''abc123'',
          connection = None\<rparr>, error_log = [], posted = []\<rparr>
       (PStr ''FOO1'') (PStr ''Test Repo''))) =
     [\<lparr>req_url = ''http://localhost:8089/repositories'',
       req_data = PStr ''{"jsonmodel_type": "repository", "repo_code": "FOO1", "name": "Test Repo"}'',
       req_headers = PDict [(''X-ArchivesSpace-Session'', PStr ''abc123'')]\<rparr>]
   \<and> fst (repositoriesPost
       (\<lambda>h q. Returns \<lparr>status_code = 200, resp_text = ''{"uri":"/repositories/2"}'',
                        resp_json = Some (PDict [(''uri'', PStr ''/repositories/2'')])\<rparr>)
       \<lparr>client = \<lparr>protocol = ''http'', domain = ''localhost'', port = ''8089'',
          username = ''admin'', password = ''admin'', sessionId = PStr ''abc123'',
          connection = None\<rparr>, error_log = [], posted = []\<rparr>
       (PStr ''FOO1'') (PStr ''Test Repo'')) = Inr (PDict [(''uri'', PStr ''/repositories/2'')])
   \<and> fst (repositoriesPost
       (\<lambda>h q. Returns \<lparr>status_code = 403, resp_text = ''Forbidden'', resp_json = None\<rparr>)
       \<lparr>client = \<lparr>protocol = ''http'', domain = ''localhost'', port = ''8089'',
          username = ''admin'', password = ''admin'', sessionId = PStr ''abc123'',
          connection = None\<rparr>, error_log = [], posted = []\<rparr>
       (PStr ''FOO1'') (PStr ''Test Repo'')) = Inr PNone\<close>
proof -
  let ?s = "\<lparr>client = \<lparr>protocol = ''http'', domain = ''localhost'', port = ''8089'',
          username = ''admin'', password = ''admin'', sessionId = PStr ''abc123'',
          connection = None\<rparr>, error_log = [], posted = []\<rparr>"
  let ?ok = \<open>\<lparr>status_code = 200, resp_text = ''{"uri":"/repositories/2"}'',
                        resp_json = Some (PDict [(''uri'', PStr ''/repositories/2'')])\<rparr>\<close>
  let ?no = "\<lparr>status_code = 403, resp_text = ''Forbidden'', resp_json = None\<rparr>"
  let ?req = \<open>\<lparr>req_url = ''http://localhost:8089/repositories'',
       req_data = PStr ''{"jsonmodel_type": "repository", "repo_code": "FOO1", "name": "Test Repo"}'',
       req_headers = PDict [(''X-ArchivesSpace-Session'', PStr ''abc123'')]\<rparr>\<close>
  have req: "?req =
     \<lparr>req_url = protocol (client ?s) @ ''://'' @ domain (client ?s) @ '':'' @ port (client ?s) @
                  ''/repositories'',
      req_data = request_data (client ?s)
                   (PDict [(''jsonmodel_type'', PStr ''repository''), (''repo_code'', PStr ''FOO1''),
                           (''name'', PStr ''Test Repo'')]),
      req_headers = session_header (client ?s)\<rparr>"
    by (simp add: request_data_def session_header_def encode_basestring_ascii_def escape_char_def)
  note ok = repositoriesPost_contract [OF req, of "\<lambda>h q. Returns ?ok" ?ok
      "PDict [(''uri'', PStr ''/repositories/2'')]"]
  note no = repositoriesPost_contract [OF req, of "\<lambda>h q. Returns ?no" ?no PNone]
  have sent: "posted (snd (repositoriesPost (\<lambda>h q. Returns ?ok) ?s (PStr ''FOO1'')
      (PStr ''Test Repo''))) = [?req]"
    using ok [THEN conjunct1] by simp
  have parsed: "fst (repositoriesPost (\<lambda>h q. Returns ?ok) ?s (PStr ''FOO1'')
      (PStr ''Test Repo'')) = Inr (PDict [(''uri'', PStr ''/repositories/2'')])"
    using ok [THEN conjunct2, THEN conjunct2, THEN conjunct1] by simp
  have refused: "fst (repositoriesPost (\<lambda>h q. Returns ?no) ?s (PStr ''FOO1'')
      (PStr ''Test Repo'')) = Inr PNone"
    using no [THEN conjunct2, THEN conjunct2, THEN conjunct2] by simp
  show ?thesis
    by (intro conjI) (rule sent, rule parsed, rule refused)
qed

subsection \<open>What a sequence of calls can change\<close>

text \<open>
  The only attributes a method assigns are \<^verbatim>\<open>sessionId\<close> and \<^verbatim>\<open>connection\<close> (lines 79-80):
  the object before and after a call agree once these two are put to a common value.
\<close>

lemma connect_client:
  "(client (snd (connect remote s)))\<lparr>sessionId := PNone, connection := None\<rparr> =
   (client s)\<lparr>sessionId := PNone, connection := None\<rparr>"
proof -
  let ?r = "requestPost remote s (''/users/'' @ username (client s) @ ''/login'')
      (PDict [(''password'', PStr (password (client s)))])"
  have "client (snd ?r) = client s"
    by (rule requestPost_client)
  then show ?thesis
    by (cases ?r)
      (auto simp add: connect_requestPost logging_error_def Let_def
        split: sum.splits error.splits)
qed

lemma perform_client:
  "(client (snd (perform remote s c)))\<lparr>sessionId := PNone, connection := None\<rparr> =
   (client s)\<lparr>sessionId := PNone, connection := None\<rparr>"
  by (cases c)
    (simp_all add: connect_client repositoriesPost_def subjectsPost_def requestPost_client)

lemma run_client:
  "(client (run remote s cs))\<lparr>sessionId := PNone, connection := None\<rparr> =
   (client s)\<lparr>sessionId := PNone, connection := None\<rparr>"
proof (induction cs arbitrary: s)
  case Nil
  show ?case by simp
next
  case (Cons c cs)
  have "(client (run remote (snd (perform remote s c)) cs))\<lparr>sessionId := PNone, connection := None\<rparr> =
      (client (snd (perform remote s c)))\<lparr>sessionId := PNone, connection := None\<rparr>"
    by (rule Cons.IH)
  also have "\<dots> = (client s)\<lparr>sessionId := PNone, connection := None\<rparr>"
    by (rule perform_client)
  finally show ?case by simp
qed

text \<open>
  C9. The five connection parameters are never assigned after the constructor: for every
  remote service and every sequence of calls (getHost, requestPost, connect,
  repositoriesPost, subjectsPost, in any order, going on after a call that raised), the
  protocol, domain, port, username and password of the object are the values that were
  given to the constructor.
\<close>

theorem connection_parameters_unchanged:
  "protocol (client (run remote (construct p d n u w) cs)) = p
   \<and> domain (client (run remote (construct p d n u w) cs)) = d
   \<and> port (client (run remote (construct p d n u w) cs)) = n
   \<and> username (client (run remote (construct p d n u w) cs)) = u
   \<and> password (client (run remote (construct p d n u w) cs)) = w"
proof -
  let ?c = "client (run remote (construct p d n u w) cs)"
  have "?c\<lparr>sessionId := PNone, connection := None\<rparr> =
      (client (construct p d n u w))\<lparr>sessionId := PNone, connection := None\<rparr>"
    by (rule run_client)
  then have eq: "?c\<lparr>sessionId := PNone, connection := None\<rparr> = init p d n u w"
    by (simp add: construct_def init_def)
  have "protocol ?c = protocol (?c\<lparr>sessionId := PNone, connection := None\<rparr>)"
    "domain ?c = domain (?c\<lparr>sessionId := PNone, connection := None\<rparr>)"
    "port ?c = port (?c\<lparr>sessionId := PNone, connection := None\<rparr>)"
    "username ?c = username (?c\<lparr>sessionId := PNone, connection := None\<rparr>)"
    "password ?c = password (?c\<lparr>sessionId := PNone, connection := None\<rparr>)"
    by simp_all
  then show ?thesis
    unfolding eq by (simp add: init_def)
qed

subsection \<open>The connection attribute\<close>

text \<open>
  connect is the only method that assigns \<^verbatim>\<open>connection\<close> (line 79). What the attribute is
  after a call depends on the outcome of the login request alone: the parsed body on
  status 200, None on every other status, and what it was before when the transport
  raises or the body of a 200 response is not JSON.
\<close>

lemma connect_connection:
  "connection (client (snd (connect remote s))) =
     (case remote (posted s)
             \<lparr>req_url = protocol (client s) @ ''://'' @ domain (client s) @ '':'' @ port (client s)
                 @ ''/users/'' @ username (client s) @ ''/login'',
              req_data = request_data (client s) (PDict [(''password'', PStr (password (client s)))]),
              req_headers = session_header (client s)\<rparr> of
        Returns r \<Rightarrow>
          if status_code r = 200 then
            (case resp_json r of None \<Rightarrow> connection (client s) | Some v \<Rightarrow> Some v)
          else Some PNone
      | RaisesConnectionError \<Rightarrow> connection (client s)
      | RaisesOther e \<Rightarrow> connection (client s))"
  by (simp add: connect_requestPost requestPost_def post_arguments_value requests_post_def
      classify_def logging_error_def Let_def
      split: outcome.splits option.splits sum.splits error.splits)


end
